theory Spec2Isabelle
  imports Complex_Main
begin

section \<open>JavaScript values\<close>

text \<open>
  The frontend is TypeScript. Values whose static type is \<open>any\<close> (the value caught by a
  \<open>catch\<close> clause, the configuration object handed to the backend) are modelled by the
  datatype below: the plain data values of JavaScript. A number is a real (the code only
  copies numbers and tests them for truthiness; NaN and the infinities are not represented).
  A string is a list of characters (non-ASCII literals of the source are written as their
  UTF-8 bytes; the code only copies strings and tests them for emptiness). An object is the
  sequence of its property definitions, in creation order. Accessor properties and proxies
  are not represented: reading a property never runs code.
\<close>

type_synonym number = real

datatype jsval =
    JUndefined
  | JNull
  | JBool bool
  | JNum number
  | JStr string
  | JArr "jsval list"
  | JObj "(string \<times> jsval) list"

type_synonym props = "(string \<times> jsval) list"

text \<open>Truthiness, as used by \<open>if (x)\<close>, \<open>!x\<close> and \<open>x || y\<close>.\<close>

fun truthy :: "jsval \<Rightarrow> bool" where
  "truthy JUndefined = False"
| "truthy JNull = False"
| "truthy (JBool b) = b"
| "truthy (JNum n) = (n \<noteq> 0)"
| "truthy (JStr s) = (s \<noteq> [])"
| "truthy (JArr xs) = True"
| "truthy (JObj ps) = True"

text \<open>\<open>typeof x === 'string'\<close>\<close>

fun is_string :: "jsval \<Rightarrow> bool" where
  "is_string (JStr s) = True"
| "is_string v = False"

text \<open>
  The value of property \<open>k\<close> of an object given by its property definitions: as in an
  object literal, a later definition of the same key wins. \<open>None\<close> is an absent property.
\<close>

definition get_prop :: "props \<Rightarrow> string \<Rightarrow> jsval option" where
  "get_prop ps k = map_of (rev ps) k"

text \<open>
  \<open>x?.k\<close> for a property name \<open>k\<close> that no built-in prototype defines (such as
  \<open>message\<close>): \<open>undefined\<close> on \<open>null\<close> and \<open>undefined\<close> by the optional chain, and
  \<open>undefined\<close> on a primitive or an array, which have no such property.
\<close>

fun opt_member :: "jsval \<Rightarrow> string \<Rightarrow> jsval" where
  "opt_member (JObj ps) k = (case get_prop ps k of None \<Rightarrow> JUndefined | Some v \<Rightarrow> v)"
| "opt_member v k = JUndefined"

text \<open>
  Writing a property: an existing key keeps its place and takes the new value, a new key
  is added at the end.
\<close>

fun set_prop :: "string \<Rightarrow> jsval \<Rightarrow> props \<Rightarrow> props" where
  "set_prop k v [] = [(k, v)]"
| "set_prop k v ((k', v') # ps) =
     (if k' = k then (k, v) # ps else (k', v') # set_prop k v ps)"

text \<open>
  Copying the own properties of \<open>src\<close> onto \<open>target\<close>, one by one in order; this is what
  each \<open>...src\<close> of an object literal does.
\<close>

definition copy_props :: "props \<Rightarrow> props \<Rightarrow> props" where
  "copy_props target src = fold (\<lambda>(k, v) t. set_prop k v t) src target"

text \<open>The object literal \<open>{ ...a, ...b }\<close>.\<close>

definition spread2 :: "props \<Rightarrow> props \<Rightarrow> props" where
  "spread2 a b = copy_props (copy_props [] a) b"

section \<open>services/tauri-api: error text and backend commands\<close>

text \<open>The literal \<open>'\<dots>'\<close> returned when nothing better is known (UTF-8 bytes).\<close>

definition unknown_error :: string where
  "unknown_error = [CHR 0xE6, CHR 0x9C, CHR 0xAA, CHR 0xE7, CHR 0x9F, CHR 0xA5,
                    CHR 0xE9, CHR 0x94, CHR 0x99, CHR 0xE8, CHR 0xAF, CHR 0xAF]"

text \<open>
  \<^verbatim>\<open>
  export function handleTauriError(error: any): string {
      if (typeof error === 'string') { return error; }
      if (error?.message) { return error.message; }
      return <fallback>;
  }
  \<close>
  The declared result type is \<open>string\<close>, but nothing converts \<open>error.message\<close>: the model
  returns the value the code returns.
\<close>

definition handleTauriError :: "jsval \<Rightarrow> jsval" where
  "handleTauriError error =
     (if is_string error then error
      else if truthy (opt_member error ''message'') then opt_member error ''message''
      else JStr unknown_error)"

text \<open>
  A settled promise: \<open>Inl e\<close> is a rejection with the thrown value \<open>e\<close>, \<open>Inr v\<close> a
  fulfilment with \<open>v\<close>.
\<close>

type_synonym 'a promise = "jsval + 'a"

text \<open>
  The backend (the Rust side behind \<open>invoke\<close>) is not part of the frontend: every function
  that calls it takes \<open>invoke\<close> as a parameter, the backend's answer to a command name and
  an argument object at the moment of the call. As \<open>invoke<T>\<close> in the source, the
  parameter is generic in the type of the answer.
\<close>

definition TauriApiService_getSystemInfo :: "(string \<Rightarrow> jsval \<Rightarrow> 'a promise) \<Rightarrow> 'a promise" where
  "TauriApiService_getSystemInfo invoke = invoke ''get_system_info'' JUndefined"

definition TauriApiService_startBenchmarkSuite ::
  "(string \<Rightarrow> jsval \<Rightarrow> 'a promise) \<Rightarrow> jsval \<Rightarrow> 'a promise" where
  "TauriApiService_startBenchmarkSuite invoke config =
     invoke ''start_benchmark_suite'' (JObj [(''config'', config)])"

definition TauriApiService_cancelBenchmark ::
  "(string \<Rightarrow> jsval \<Rightarrow> 'a promise) \<Rightarrow> string \<Rightarrow> 'a promise" where
  "TauriApiService_cancelBenchmark invoke sessionId =
     invoke ''cancel_benchmark'' (JObj [(''sessionId'', JStr sessionId)])"

definition TauriApiService_getTestStatus ::
  "(string \<Rightarrow> jsval \<Rightarrow> 'a promise) \<Rightarrow> string \<Rightarrow> 'a promise" where
  "TauriApiService_getTestStatus invoke sessionId =
     invoke ''get_test_status'' (JObj [(''sessionId'', JStr sessionId)])"

definition TauriApiService_getAllTestSessions :: "(string \<Rightarrow> jsval \<Rightarrow> 'a promise) \<Rightarrow> 'a promise" where
  "TauriApiService_getAllTestSessions invoke = invoke ''get_all_test_sessions'' JUndefined"

definition TauriApiService_getSystemMonitoringData ::
  "(string \<Rightarrow> jsval \<Rightarrow> 'a promise) \<Rightarrow> 'a promise" where
  "TauriApiService_getSystemMonitoringData invoke = invoke ''get_system_monitoring_data'' JUndefined"

definition TauriApiService_cleanupCompletedSessions ::
  "(string \<Rightarrow> jsval \<Rightarrow> 'a promise) \<Rightarrow> 'a promise" where
  "TauriApiService_cleanupCompletedSessions invoke = invoke ''cleanup_completed_sessions'' JUndefined"

definition TauriApiService_pauseBenchmark ::
  "(string \<Rightarrow> jsval \<Rightarrow> 'a promise) \<Rightarrow> string \<Rightarrow> 'a promise" where
  "TauriApiService_pauseBenchmark invoke sessionId =
     invoke ''pause_benchmark'' (JObj [(''sessionId'', JStr sessionId)])"

definition TauriApiService_resumeBenchmark ::
  "(string \<Rightarrow> jsval \<Rightarrow> 'a promise) \<Rightarrow> string \<Rightarrow> 'a promise" where
  "TauriApiService_resumeBenchmark invoke sessionId =
     invoke ''resume_benchmark'' (JObj [(''sessionId'', JStr sessionId)])"

section \<open>types: statuses and event payloads\<close>

datatype TestStatus = Pending | Running | Completed | Failed | Cancelled

datatype WarningSeverity = Low | Medium | High | Critical

text \<open>
  The interfaces of the source, with a prefix on each field name (several interfaces share
  \<open>session_id\<close>, \<open>message\<close>, \<open>success\<close>, \<open>error\<close>). An optional field \<open>f?: T\<close> is an
  option; \<open>None\<close> stands for an absent field, \<open>undefined\<close> and \<open>null\<close> alike (all are
  falsy and the code does not tell them apart).
\<close>

record TestResults =
  tr_timestamp :: string
  tr_systemInfo :: jsval
  tr_cpuResults :: "jsval option"
  tr_memoryResults :: "jsval option"
  tr_storageResults :: "jsval option"
  tr_overallScore :: number

record BenchmarkProgress =
  bp_session_id :: string
  bp_current_test :: string
  bp_overall_progress :: number
  bp_test_progress :: number
  bp_message :: string
  bp_estimated_time_remaining :: "number option"

record SystemMonitoringData =
  md_cpu_usage :: number
  md_memory_usage :: number
  md_temperature :: "number option"
  md_timestamp :: string

record TestSession =
  ts_session_id :: string
  ts_status :: TestStatus
  ts_start_time :: string
  ts_end_time :: "string option"
  ts_config :: "jsval option"

record RealTimePerformanceData =
  rt_session_id :: string
  rt_test_type :: string
  rt_metrics :: "(string \<times> number) list"
  rt_timestamp :: string

record TestWarningEvent =
  tw_session_id :: string
  tw_test_type :: string
  tw_warning_type :: string
  tw_message :: string
  tw_severity :: WarningSeverity

record TestCompleteEvent =
  tc_session_id :: string
  tc_test_type :: string
  tc_success :: bool
  tc_result :: "jsval option"
  tc_error :: "string option"

record BenchmarkSuiteCompleteEvent =
  bc_session_id :: string
  bc_success :: bool
  bc_results :: "TestResults option"
  bc_error :: "string option"

section \<open>composables/useBenchmark: the reactive state\<close>

record progress_state =
  overall :: number
  current :: number
  currentTest :: string
  message :: string
  estimatedTimeRemaining :: "number option"

text \<open>
  The refs of the composable, and \<open>listeners\<close>: the event names for which the
  \<open>EventListenerManager\<close> holds a registered listener, in registration order. \<open>error\<close> is
  declared \<open>string | null\<close> but receives whatever \<open>handleTauriError\<close> returns, so it is a
  value (\<open>JNull\<close> for \<open>null\<close>).
\<close>

record state =
  systemInfo :: jsval
  currentSession :: "string option"
  testStatus :: TestStatus
  testResults :: "TestResults option"
  allSessions :: "TestSession list"
  isLoading :: bool
  error :: jsval
  progress :: progress_state
  monitoringData :: "SystemMonitoringData option"
  performanceData :: "RealTimePerformanceData list"
  warnings :: "TestWarningEvent list"
  listeners :: "string list"

definition initial_state :: state where
  "initial_state =
     \<lparr> systemInfo = JNull, currentSession = None, testStatus = Pending, testResults = None,
       allSessions = [], isLoading = False, error = JNull,
       progress = \<lparr> overall = 0, current = 0, currentTest = [], message = [],
                    estimatedTimeRemaining = None \<rparr>,
       monitoringData = None, performanceData = [], warnings = [], listeners = [] \<rparr>"

text \<open>The computed properties.\<close>

definition isRunning :: "state \<Rightarrow> bool" where
  "isRunning s = (testStatus s = Running)"

definition isCompleted :: "state \<Rightarrow> bool" where
  "isCompleted s = (testStatus s = Completed)"

definition isFailed :: "state \<Rightarrow> bool" where
  "isFailed s = (testStatus s = Failed)"

definition isCancelled :: "state \<Rightarrow> bool" where
  "isCancelled s = (testStatus s = Cancelled)"

text \<open>\<open>x || d\<close> for an optional string \<open>x\<close>: the empty string is falsy too.\<close>

definition or_default :: "string option \<Rightarrow> string \<Rightarrow> string" where
  "or_default x d = (case x of None \<Rightarrow> d | Some e \<Rightarrow> if e = [] then d else e)"

text \<open>\<open>x || null\<close> for an optional number: zero is falsy too.\<close>

definition or_null :: "number option \<Rightarrow> number option" where
  "or_null x = (case x of None \<Rightarrow> None | Some n \<Rightarrow> if n = 0 then None else Some n)"

text \<open>\<open>xs.slice(-n)\<close>: the last \<open>n\<close> elements, all of them when there are fewer.\<close>

definition slice_last :: "nat \<Rightarrow> 'a list \<Rightarrow> 'a list" where
  "slice_last n xs = drop (length xs - n) xs"

text \<open>The string literals of the composable (UTF-8 bytes).\<close>

definition msg_starting :: string where
  "msg_starting = [CHR 0xE6, CHR 0xAD, CHR 0xA3, CHR 0xE5, CHR 0x9C, CHR 0xA8, CHR 0xE5,
                   CHR 0x90, CHR 0xAF, CHR 0xE5, CHR 0x8A, CHR 0xA8, CHR 0xE6, CHR 0xB5,
                   CHR 0x8B, CHR 0xE8, CHR 0xAF, CHR 0x95, CHR 0x2E, CHR 0x2E, CHR 0x2E]"

definition msg_test_failed :: string where
  "msg_test_failed = [CHR 0xE6, CHR 0xB5, CHR 0x8B, CHR 0xE8, CHR 0xAF, CHR 0x95,
                      CHR 0xE5, CHR 0xA4, CHR 0xB1, CHR 0xE8, CHR 0xB4, CHR 0xA5]"

definition msg_suite_failed :: string where
  "msg_suite_failed = [CHR 0xE6, CHR 0xB5, CHR 0x8B, CHR 0xE8, CHR 0xAF, CHR 0x95,
                       CHR 0xE5, CHR 0xA5, CHR 0x97, CHR 0xE4, CHR 0xBB, CHR 0xB6,
                       CHR 0xE5, CHR 0xA4, CHR 0xB1, CHR 0xE8, CHR 0xB4, CHR 0xA5]"

definition msg_test_error :: string where
  "msg_test_error = [CHR 0xE6, CHR 0xB5, CHR 0x8B, CHR 0xE8, CHR 0xAF, CHR 0x95,
                     CHR 0xE5, CHR 0x87, CHR 0xBA, CHR 0xE7, CHR 0x8E, CHR 0xB0,
                     CHR 0xE9, CHR 0x94, CHR 0x99, CHR 0xE8, CHR 0xAF, CHR 0xAF]"

section \<open>composables/useBenchmark: the operations\<close>

text \<open>
  Each \<open>async\<close> operation is modelled from its call to the settlement of the promise it
  returns: the result is that settlement and the state left behind. The backend's answer
  comes through the parameter \<open>invoke\<close>. A \<open>try\<close>/\<open>catch\<close> is the case distinction on the
  answer; \<open>console.error\<close> has no effect on the state. A call is one step: no event is
  delivered and no other operation runs between the call and its settlement. For
  \<open>cancelBenchmark\<close>, whose status at the moment of return matters, the steps taken while
  the call awaits the backend are modelled as well, further below.
\<close>

definition initializeSystemInfo ::
  "(string \<Rightarrow> jsval \<Rightarrow> jsval promise) \<Rightarrow> state \<Rightarrow> unit promise \<times> state" where
  "initializeSystemInfo invoke s =
     (let s1 = s\<lparr>isLoading := True, error := JNull\<rparr> in
      case TauriApiService_getSystemInfo invoke of
        Inr info \<Rightarrow> (Inr (), s1\<lparr>systemInfo := info, isLoading := False\<rparr>)
      | Inl err \<Rightarrow> (Inr (), s1\<lparr>error := handleTauriError err, isLoading := False\<rparr>))"

definition startBenchmarkSuite ::
  "(string \<Rightarrow> jsval \<Rightarrow> string promise) \<Rightarrow> jsval \<Rightarrow> state \<Rightarrow> string promise \<times> state" where
  "startBenchmarkSuite invoke config s =
     (let s1 = s\<lparr>isLoading := True, error := JNull\<rparr> in
      case TauriApiService_startBenchmarkSuite invoke config of
        Inr sessionId \<Rightarrow>
          (Inr sessionId,
           s1\<lparr>currentSession := Some sessionId,
              testStatus := Running,
              progress := (progress s1)\<lparr>overall := 0, current := 0, currentTest := [],
                                         message := msg_starting\<rparr>,
              performanceData := [],
              warnings := [],
              isLoading := False\<rparr>)
      | Inl err \<Rightarrow> (Inl err, s1\<lparr>error := handleTauriError err, isLoading := False\<rparr>))"

text \<open>\<open>!currentSession.value\<close>: there is no session, or its id is the empty string.\<close>

definition no_session :: "string option \<Rightarrow> bool" where
  "no_session x = (case x of None \<Rightarrow> True | Some sid \<Rightarrow> sid = [])"

definition cancelBenchmark ::
  "(string \<Rightarrow> jsval \<Rightarrow> unit promise) \<Rightarrow> state \<Rightarrow> unit promise \<times> state" where
  "cancelBenchmark invoke s =
     (if no_session (currentSession s) then (Inr (), s)
      else case TauriApiService_cancelBenchmark invoke (the (currentSession s)) of
        Inr u \<Rightarrow> (Inr (), s\<lparr>testStatus := Cancelled\<rparr>)
      | Inl err \<Rightarrow> (Inr (), s\<lparr>error := handleTauriError err\<rparr>))"

definition pauseBenchmark ::
  "(string \<Rightarrow> jsval \<Rightarrow> unit promise) \<Rightarrow> state \<Rightarrow> unit promise \<times> state" where
  "pauseBenchmark invoke s =
     (if no_session (currentSession s) then (Inr (), s)
      else case TauriApiService_pauseBenchmark invoke (the (currentSession s)) of
        Inr u \<Rightarrow> (Inr (), s)
      | Inl err \<Rightarrow> (Inr (), s\<lparr>error := handleTauriError err\<rparr>))"

definition resumeBenchmark ::
  "(string \<Rightarrow> jsval \<Rightarrow> unit promise) \<Rightarrow> state \<Rightarrow> unit promise \<times> state" where
  "resumeBenchmark invoke s =
     (if no_session (currentSession s) then (Inr (), s)
      else case TauriApiService_resumeBenchmark invoke (the (currentSession s)) of
        Inr u \<Rightarrow> (Inr (), s)
      | Inl err \<Rightarrow> (Inr (), s\<lparr>error := handleTauriError err\<rparr>))"

text \<open>
  \<open>cancelBenchmark\<close> once more, with its \<open>await\<close>. The part that runs at the call reads
  the current session and, when there is one, issues the command with that id; the call is
  then pending (\<open>Some\<close> of the id), otherwise it returns at once (\<open>None\<close>). The rest runs
  when the backend's answer arrives, on the state as it is at that moment.
\<close>

definition cancelBenchmark_call :: "state \<Rightarrow> string option" where
  "cancelBenchmark_call s = (if no_session (currentSession s) then None else currentSession s)"

definition cancelBenchmark_settle :: "unit promise \<Rightarrow> state \<Rightarrow> unit promise \<times> state" where
  "cancelBenchmark_settle answer s =
     (case answer of
        Inr u \<Rightarrow> (Inr (), s\<lparr>testStatus := Cancelled\<rparr>)
      | Inl err \<Rightarrow> (Inr (), s\<lparr>error := handleTauriError err\<rparr>))"

text \<open>
  \<open>getTestStatus(sessionId?)\<close>: the target is \<open>sessionId || currentSession.value\<close>. The
  promise is fulfilled with the status, or with \<open>undefined\<close> (\<open>None\<close>) when there is no
  target or the command fails.
\<close>

definition getTestStatus ::
  "(string \<Rightarrow> jsval \<Rightarrow> TestStatus promise) \<Rightarrow> string option \<Rightarrow> state
     \<Rightarrow> TestStatus option promise \<times> state" where
  "getTestStatus invoke sessionId s =
     (let targetSessionId = (if no_session sessionId then currentSession s else sessionId) in
      if no_session targetSessionId then (Inr None, s)
      else case TauriApiService_getTestStatus invoke (the targetSessionId) of
        Inr status \<Rightarrow>
          (Inr (Some status),
           if targetSessionId = currentSession s then s\<lparr>testStatus := status\<rparr> else s)
      | Inl err \<Rightarrow> (Inr None, s\<lparr>error := handleTauriError err\<rparr>))"

definition getAllTestSessions ::
  "(string \<Rightarrow> jsval \<Rightarrow> TestSession list promise) \<Rightarrow> state \<Rightarrow> unit promise \<times> state" where
  "getAllTestSessions invoke s =
     (case TauriApiService_getAllTestSessions invoke of
        Inr sessions \<Rightarrow> (Inr (), s\<lparr>allSessions := sessions\<rparr>)
      | Inl err \<Rightarrow> (Inr (), s\<lparr>error := handleTauriError err\<rparr>))"

definition getSystemMonitoringData ::
  "(string \<Rightarrow> jsval \<Rightarrow> SystemMonitoringData promise) \<Rightarrow> state \<Rightarrow> unit promise \<times> state" where
  "getSystemMonitoringData invoke s =
     (case TauriApiService_getSystemMonitoringData invoke of
        Inr d \<Rightarrow> (Inr (), s\<lparr>monitoringData := Some d\<rparr>)
      | Inl err \<Rightarrow> (Inr (), s))"

text \<open>
  \<open>cleanupCompletedSessions\<close> asks the backend to clean up and then refreshes the session
  list with a second command (\<open>invoke2\<close> is the backend's answer at that later moment).
\<close>

definition cleanupCompletedSessions ::
  "(string \<Rightarrow> jsval \<Rightarrow> number promise) \<Rightarrow> (string \<Rightarrow> jsval \<Rightarrow> TestSession list promise)
     \<Rightarrow> state \<Rightarrow> number option promise \<times> state" where
  "cleanupCompletedSessions invoke invoke2 s =
     (case TauriApiService_cleanupCompletedSessions invoke of
        Inr cleanedCount \<Rightarrow>
          (case getAllTestSessions invoke2 s of
             (Inr u, s') \<Rightarrow> (Inr (Some cleanedCount), s')
           | (Inl err, s') \<Rightarrow> (Inr None, s'\<lparr>error := handleTauriError err\<rparr>))
      | Inl err \<Rightarrow> (Inr None, s\<lparr>error := handleTauriError err\<rparr>))"

section \<open>composables/useBenchmark: the event handlers\<close>

text \<open>
  The callbacks registered by \<open>setupEventListeners\<close>, one per event name. The test
  \<open>data.session_id === currentSession.value\<close> compares a string with a string or \<open>null\<close>.
\<close>

definition on_benchmark_progress :: "BenchmarkProgress \<Rightarrow> state \<Rightarrow> state" where
  "on_benchmark_progress d s =
     (if Some (bp_session_id d) = currentSession s then
        s\<lparr>progress := (progress s)\<lparr>overall := bp_overall_progress d,
                                   current := bp_test_progress d,
                                   currentTest := bp_current_test d,
                                   message := bp_message d,
                                   estimatedTimeRemaining :=
                                     or_null (bp_estimated_time_remaining d)\<rparr>\<rparr>
      else s)"

definition on_system_monitoring :: "SystemMonitoringData \<Rightarrow> state \<Rightarrow> state" where
  "on_system_monitoring d s = s\<lparr>monitoringData := Some d\<rparr>"

definition on_real_time_performance :: "RealTimePerformanceData \<Rightarrow> state \<Rightarrow> state" where
  "on_real_time_performance d s =
     (if Some (rt_session_id d) = currentSession s then
        (let pushed = performanceData s @ [d] in
         if length pushed > 100 then s\<lparr>performanceData := slice_last 100 pushed\<rparr>
         else s\<lparr>performanceData := pushed\<rparr>)
      else s)"

definition on_test_warning :: "TestWarningEvent \<Rightarrow> state \<Rightarrow> state" where
  "on_test_warning d s =
     (if Some (tw_session_id d) = currentSession s then s\<lparr>warnings := warnings s @ [d]\<rparr>
      else s)"

definition on_test_complete :: "TestCompleteEvent \<Rightarrow> state \<Rightarrow> state" where
  "on_test_complete d s =
     (if Some (tc_session_id d) = currentSession s then
        (if \<not> tc_success d then
           s\<lparr>error := JStr (or_default (tc_error d) msg_test_failed), testStatus := Failed\<rparr>
         else s)
      else s)"

definition on_benchmark_complete :: "BenchmarkSuiteCompleteEvent \<Rightarrow> state \<Rightarrow> state" where
  "on_benchmark_complete d s =
     (if Some (bc_session_id d) = currentSession s then
        (if bc_success d \<and> bc_results d \<noteq> None then
           s\<lparr>testResults := bc_results d, testStatus := Completed\<rparr>
         else
           s\<lparr>error := JStr (or_default (bc_error d) msg_suite_failed), testStatus := Failed\<rparr>)
      else s)"

definition on_test_error :: "TestCompleteEvent \<Rightarrow> state \<Rightarrow> state" where
  "on_test_error d s =
     (if Some (tc_session_id d) = currentSession s then
        s\<lparr>error := JStr (or_default (tc_error d) msg_test_error), testStatus := Failed\<rparr>
      else s)"

text \<open>An event: its name selects the listeners, its payload is handed to them.\<close>

datatype event =
    BenchmarkProgressEv BenchmarkProgress
  | SystemMonitoringEv SystemMonitoringData
  | RealTimePerformanceEv RealTimePerformanceData
  | TestWarningEv TestWarningEvent
  | TestCompleteEv TestCompleteEvent
  | BenchmarkCompleteEv BenchmarkSuiteCompleteEvent
  | TestErrorEv TestCompleteEvent

fun event_name :: "event \<Rightarrow> string" where
  "event_name (BenchmarkProgressEv d) = ''benchmark-progress''"
| "event_name (SystemMonitoringEv d) = ''system-monitoring''"
| "event_name (RealTimePerformanceEv d) = ''real-time-performance''"
| "event_name (TestWarningEv d) = ''test-warning''"
| "event_name (TestCompleteEv d) = ''test-complete''"
| "event_name (BenchmarkCompleteEv d) = ''benchmark-complete''"
| "event_name (TestErrorEv d) = ''test-error''"

fun handler :: "event \<Rightarrow> state \<Rightarrow> state" where
  "handler (BenchmarkProgressEv d) = on_benchmark_progress d"
| "handler (SystemMonitoringEv d) = on_system_monitoring d"
| "handler (RealTimePerformanceEv d) = on_real_time_performance d"
| "handler (TestWarningEv d) = on_test_warning d"
| "handler (TestCompleteEv d) = on_test_complete d"
| "handler (BenchmarkCompleteEv d) = on_benchmark_complete d"
| "handler (TestErrorEv d) = on_test_error d"

text \<open>
  \<open>setupEventListeners\<close> registers the seven listeners in this order; \<open>listen\<close> tells
  whether registering a name succeeds, and the first failure skips the rest (the
  \<open>catch\<close> only logs).
\<close>

definition listener_names :: "string list" where
  "listener_names = [''benchmark-progress'', ''system-monitoring'', ''real-time-performance'',
                     ''test-warning'', ''test-complete'', ''benchmark-complete'', ''test-error'']"

definition setupEventListeners :: "(string \<Rightarrow> bool) \<Rightarrow> state \<Rightarrow> state" where
  "setupEventListeners listen s = s\<lparr>listeners := listeners s @ takeWhile listen listener_names\<rparr>"

text \<open>
  The delivery of an event: every registered listener of that name runs its callback, in
  registration order.
\<close>

definition emit :: "event \<Rightarrow> state \<Rightarrow> state" where
  "emit e s = fold (\<lambda>n st. if n = event_name e then handler e st else st) (listeners s) s"

definition cleanup :: "state \<Rightarrow> state" where
  "cleanup s =
     s\<lparr>listeners := [],
       currentSession := None,
       testStatus := Pending,
       testResults := None,
       error := JNull,
       progress := (progress s)\<lparr>overall := 0, current := 0, currentTest := [], message := []\<rparr>,
       performanceData := [],
       warnings := []\<rparr>"

section \<open>Runs of the composable\<close>

text \<open>
  One step of the composable's life: an operation called with the backend's answer, or an
  event delivered. A run applies steps in order.
\<close>

datatype action =
    InitializeSystemInfo "string \<Rightarrow> jsval \<Rightarrow> jsval promise"
  | StartBenchmarkSuite "string \<Rightarrow> jsval \<Rightarrow> string promise" jsval
  | CancelBenchmark "string \<Rightarrow> jsval \<Rightarrow> unit promise"
  | PauseBenchmark "string \<Rightarrow> jsval \<Rightarrow> unit promise"
  | ResumeBenchmark "string \<Rightarrow> jsval \<Rightarrow> unit promise"
  | GetTestStatus "string \<Rightarrow> jsval \<Rightarrow> TestStatus promise" "string option"
  | GetAllTestSessions "string \<Rightarrow> jsval \<Rightarrow> TestSession list promise"
  | GetSystemMonitoringData "string \<Rightarrow> jsval \<Rightarrow> SystemMonitoringData promise"
  | CleanupCompletedSessions "string \<Rightarrow> jsval \<Rightarrow> number promise"
                             "string \<Rightarrow> jsval \<Rightarrow> TestSession list promise"
  | SetupEventListeners "string \<Rightarrow> bool"
  | Cleanup
  | Emit event

fun step :: "action \<Rightarrow> state \<Rightarrow> state" where
  "step (InitializeSystemInfo invoke) s = snd (initializeSystemInfo invoke s)"
| "step (StartBenchmarkSuite invoke config) s = snd (startBenchmarkSuite invoke config s)"
| "step (CancelBenchmark invoke) s = snd (cancelBenchmark invoke s)"
| "step (PauseBenchmark invoke) s = snd (pauseBenchmark invoke s)"
| "step (ResumeBenchmark invoke) s = snd (resumeBenchmark invoke s)"
| "step (GetTestStatus invoke sessionId) s = snd (getTestStatus invoke sessionId s)"
| "step (GetAllTestSessions invoke) s = snd (getAllTestSessions invoke s)"
| "step (GetSystemMonitoringData invoke) s = snd (getSystemMonitoringData invoke s)"
| "step (CleanupCompletedSessions invoke invoke2) s =
     snd (cleanupCompletedSessions invoke invoke2 s)"
| "step (SetupEventListeners listen) s = setupEventListeners listen s"
| "step Cleanup s = cleanup s"
| "step (Emit e) s = emit e s"

fun run :: "state \<Rightarrow> action list \<Rightarrow> state" where
  "run s [] = s"
| "run s (a # as) = run (step a s) as"

text \<open>
  A cancel call during which other steps take place: \<open>pending\<close> are the events delivered
  and the operations run between the call and the arrival of the backend's answer. With
  nothing pending this is \<open>cancelBenchmark\<close>.
\<close>

definition cancelBenchmark_during ::
  "(string \<Rightarrow> jsval \<Rightarrow> unit promise) \<Rightarrow> action list \<Rightarrow> state \<Rightarrow> unit promise \<times> state" where
  "cancelBenchmark_during invoke pending s =
     (case cancelBenchmark_call s of
        None \<Rightarrow> (Inr (), s)
      | Some sid \<Rightarrow>
          cancelBenchmark_settle (TauriApiService_cancelBenchmark invoke sid) (run s pending))"

section \<open>stores/index: the benchmark store\<close>

text \<open>
  The configuration is an object with the sections \<open>cpuTest\<close>, \<open>memoryTest\<close> and
  \<open>storageTest\<close>, each an object itself. \<open>ProgressData\<close> is declared elsewhere and only
  stored here, so it is a value.
\<close>

record store =
  config :: props
  currentResults :: "TestResults option"
  testHistory :: "TestResults list"
  isTestRunning :: bool
  testProgress :: "jsval option"

definition initial_store :: store where
  "initial_store =
     \<lparr> config =
         [(''cpuTest'', JObj [(''enabled'', JBool True), (''duration'', JNum 60),
                              (''threadCount'', JNum 0)]),
          (''memoryTest'', JObj [(''enabled'', JBool True), (''bufferSize'', JNum 1024),
                                 (''iterations'', JNum 100)]),
          (''storageTest'', JObj [(''enabled'', JBool True), (''fileSize'', JNum 1024),
                                  (''blockSize'', JNum 4)])],
       currentResults = None, testHistory = [], isTestRunning = False, testProgress = None \<rparr>"

text \<open>\<open>config.value = { ...config.value, ...newConfig }\<close>\<close>

definition updateConfig :: "props \<Rightarrow> store \<Rightarrow> store" where
  "updateConfig newConfig st = st\<lparr>config := spread2 (config st) newConfig\<rparr>"

definition setTestResults :: "TestResults \<Rightarrow> store \<Rightarrow> store" where
  "setTestResults results st =
     st\<lparr>currentResults := Some results, testHistory := testHistory st @ [results]\<rparr>"

definition setTestRunning :: "bool \<Rightarrow> store \<Rightarrow> store" where
  "setTestRunning running st = st\<lparr>isTestRunning := running\<rparr>"

definition updateProgress :: "jsval \<Rightarrow> store \<Rightarrow> store" where
  "updateProgress p st = st\<lparr>testProgress := Some p\<rparr>"

definition clearProgress :: "store \<Rightarrow> store" where
  "clearProgress st = st\<lparr>testProgress := None\<rparr>"

section \<open>Observations on runs\<close>

text \<open>
  What a run shows of the overall progress: the value recorded before the first step and
  after every step.
\<close>

fun overall_trace :: "state \<Rightarrow> action list \<Rightarrow> number list" where
  "overall_trace s [] = [overall (progress s)]"
| "overall_trace s (a # as) = overall (progress s) # overall_trace (step a s) as"

text \<open>
  The overall progress an action reports: that of a \<open>benchmark-progress\<close> event, nothing
  for any other action; and the values a list of actions reports, in order.
\<close>

fun progress_value :: "action \<Rightarrow> number option" where
  "progress_value (Emit (BenchmarkProgressEv d)) = Some (bp_overall_progress d)"
| "progress_value a = None"

fun reported :: "action list \<Rightarrow> number list" where
  "reported [] = []"
| "reported (a # as) =
     (case progress_value a of None \<Rightarrow> reported as | Some v \<Rightarrow> v # reported as)"

text \<open>
  The actions that stay within the current session: all but the start of a new suite and
  \<open>cleanup\<close>, which both reset the recorded progress to zero.
\<close>

fun within_session :: "action \<Rightarrow> bool" where
  "within_session (StartBenchmarkSuite invoke cfg) = False"
| "within_session Cleanup = False"
| "within_session a = True"

text \<open>The session an event is addressed to; \<open>system-monitoring\<close> carries none.\<close>

fun event_session :: "event \<Rightarrow> string option" where
  "event_session (BenchmarkProgressEv d) = Some (bp_session_id d)"
| "event_session (SystemMonitoringEv d) = None"
| "event_session (RealTimePerformanceEv d) = Some (rt_session_id d)"
| "event_session (TestWarningEv d) = Some (tw_session_id d)"
| "event_session (TestCompleteEv d) = Some (tc_session_id d)"
| "event_session (BenchmarkCompleteEv d) = Some (bc_session_id d)"
| "event_session (TestErrorEv d) = Some (tc_session_id d)"

section \<open>Example sessions\<close>

text \<open>
  Concrete states and payloads on which the properties below are evaluated. The session
  \<open>s1\<close> is started after the listeners are registered; it completes when the backend
  reports results, and it is cancelled when the backend accepts the cancel command.
\<close>

definition running_s1 :: state where
  "running_s1 =
     run initial_state
       [SetupEventListeners (\<lambda>name. True),
        StartBenchmarkSuite (\<lambda>cmd args. Inr ''s1'') (JObj (config initial_store))]"

definition progress_at :: "number \<Rightarrow> BenchmarkProgress" where
  "progress_at v =
     \<lparr> bp_session_id = ''s1'', bp_current_test = ''cpu'', bp_overall_progress = v,
       bp_test_progress = v, bp_message = ''running'', bp_estimated_time_remaining = None \<rparr>"

definition test_done :: "string \<Rightarrow> bool \<Rightarrow> string option \<Rightarrow> TestCompleteEvent" where
  "test_done test_type ok err =
     \<lparr> tc_session_id = ''s1'', tc_test_type = test_type, tc_success = ok, tc_result = None,
       tc_error = err \<rparr>"

definition some_results :: TestResults where
  "some_results =
     \<lparr> tr_timestamp = ''2024-01-01T00:00:00Z'', tr_systemInfo = JObj [],
       tr_cpuResults = None, tr_memoryResults = Some (JObj []), tr_storageResults = None,
       tr_overallScore = 1 \<rparr>"

definition suite_done :: "bool \<Rightarrow> TestResults option \<Rightarrow> string option \<Rightarrow> BenchmarkSuiteCompleteEvent" where
  "suite_done ok res err =
     \<lparr> bc_session_id = ''s1'', bc_success = ok, bc_results = res, bc_error = err \<rparr>"

definition completed_s1 :: state where
  "completed_s1 =
     run running_s1 [Emit (BenchmarkCompleteEv (suite_done True (Some some_results) None))]"

definition cancelled_s1 :: state where
  "cancelled_s1 = run running_s1 [CancelBenchmark (\<lambda>cmd args. Inr ())]"


section \<open>Objects: reading after writing\<close>

lemma set_prop_keys: "fst ` set (set_prop k v ps) = insert k (fst ` set ps)"
  by (induction ps) force+

lemma distinct_set_prop: "distinct (map fst ps) \<Longrightarrow> distinct (map fst (set_prop k v ps))"
  by (induction ps) (auto simp: set_prop_keys)

lemma map_of_set_prop: "map_of (set_prop k v ps) k' = (if k' = k then Some v else map_of ps k')"
  by (induction ps) auto

lemma get_prop_distinct: "distinct (map fst ps) \<Longrightarrow> get_prop ps k = map_of ps k"
  unfolding get_prop_def
  by (metis distinct_rev map_of_inject_set rev_map set_rev)

lemma distinct_copy_props:
  "distinct (map fst t) \<Longrightarrow> distinct (map fst (copy_props t src))"
  unfolding copy_props_def
  by (induction src arbitrary: t) (auto simp: distinct_set_prop)

lemma map_of_copy_props:
  "map_of (copy_props t src) k = (case get_prop src k of None \<Rightarrow> map_of t k | Some v \<Rightarrow> Some v)"
  unfolding copy_props_def get_prop_def
  by (induction src arbitrary: t) (auto simp: map_of_set_prop map_add_def split: option.splits)

lemma get_prop_spread2:
  "get_prop (spread2 a b) k = (case get_prop b k of None \<Rightarrow> get_prop a k | Some v \<Rightarrow> Some v)"
proof -
  have d: "distinct (map fst (spread2 a b))"
    unfolding spread2_def by (simp add: distinct_copy_props)
  show ?thesis
    unfolding get_prop_distinct[OF d]
    unfolding spread2_def
    by (simp add: map_of_copy_props split: option.splits)
qed

section \<open>The store: updateConfig\<close>

text \<open>
  C9. \<open>updateConfig\<close> is a shallow merge at the top level. For every stored configuration,
  every argument and every key: a section absent from the argument keeps its stored
  value; a section present in the argument becomes the argument's value as a whole, so
  that a field missing inside a supplied section is missing afterwards. Nothing else in
  the store changes.
\<close>

theorem updateConfig_shallow_merge:
  "(get_prop newConfig k = None \<longrightarrow>
      get_prop (config (updateConfig newConfig st)) k = get_prop (config st) k)
   \<and> (get_prop newConfig k = Some sec \<longrightarrow>
      get_prop (config (updateConfig newConfig st)) k = Some sec)
   \<and> currentResults (updateConfig newConfig st) = currentResults st
   \<and> testHistory (updateConfig newConfig st) = testHistory st
   \<and> isTestRunning (updateConfig newConfig st) = isTestRunning st
   \<and> testProgress (updateConfig newConfig st) = testProgress st"
  by (simp add: updateConfig_def get_prop_spread2)

text \<open>
  On the store's initial configuration, \<open>updateConfig({cpuTest: {enabled: false}})\<close> leaves
  \<open>memoryTest\<close> as it was and replaces \<open>cpuTest\<close> by the one-field object: its \<open>duration\<close>
  is gone.
\<close>

theorem updateConfig_shallow_merge_witness:
  "get_prop [(''cpuTest'', JObj [(''enabled'', JBool False)])] ''memoryTest'' = None
   \<and> get_prop (config (updateConfig [(''cpuTest'', JObj [(''enabled'', JBool False)])] initial_store))
        ''memoryTest''
      = Some (JObj [(''enabled'', JBool True), (''bufferSize'', JNum 1024), (''iterations'', JNum 100)])
   \<and> get_prop [(''cpuTest'', JObj [(''enabled'', JBool False)])] ''cpuTest''
      = Some (JObj [(''enabled'', JBool False)])
   \<and> get_prop (config (updateConfig [(''cpuTest'', JObj [(''enabled'', JBool False)])] initial_store))
        ''cpuTest''
      = Some (JObj [(''enabled'', JBool False)])
   \<and> opt_member (JObj [(''enabled'', JBool False)]) ''duration'' = JUndefined"
  using updateConfig_shallow_merge
          [of "[(''cpuTest'', JObj [(''enabled'', JBool False)])]" "''memoryTest''" initial_store]
        updateConfig_shallow_merge
          [of "[(''cpuTest'', JObj [(''enabled'', JBool False)])]" "''cpuTest''" initial_store]
  by (simp add: get_prop_def initial_store_def)

section \<open>handleTauriError\<close>

text \<open>
  What the function computes on data values: the input itself when the input is a string,
  the input's \<open>message\<close> when that is truthy, the fixed fallback string otherwise. Its
  result is a string exactly when the input is a string, the \<open>message\<close> is falsy, or the
  \<open>message\<close> is a string.
\<close>

lemma handleTauriError_cases:
  "(is_string e \<longrightarrow> handleTauriError e = e)
   \<and> (\<not> is_string e \<and> truthy (opt_member e ''message'') \<longrightarrow>
        handleTauriError e = opt_member e ''message'')
   \<and> (\<not> is_string e \<and> \<not> truthy (opt_member e ''message'') \<longrightarrow>
        handleTauriError e = JStr unknown_error)
   \<and> (is_string (handleTauriError e) =
        (is_string e \<or> \<not> truthy (opt_member e ''message'') \<or> is_string (opt_member e ''message'')))"
  by (auto simp: handleTauriError_def)

text \<open>
  A string, an error object with a message, \<open>null\<close>, \<open>undefined\<close> and an object whose
  message is empty.
\<close>

lemma handleTauriError_examples:
  "handleTauriError (JStr ''boom'') = JStr ''boom''
   \<and> handleTauriError (JObj [(''code'', JStr ''E1''), (''message'', JStr ''no such session'')])
        = JStr ''no such session''
   \<and> handleTauriError JNull = JStr unknown_error
   \<and> handleTauriError JUndefined = JStr unknown_error
   \<and> handleTauriError (JObj [(''message'', JStr [])]) = JStr unknown_error"
  by (simp add: handleTauriError_def get_prop_def)

text \<open>
  C10. The claim: for every input the function returns a string, namely the input itself,
  its truthy message, or the fallback. The function is declared to return \<open>string\<close> and
  its two other results are strings, but the message is returned unconverted: on the
  object \<open>{message: 42}\<close> the result is the number 42, which is not a string.
\<close>

theorem handleTauriError_number_message:
  "handleTauriError (JObj [(''message'', JNum 42)]) = JNum 42
   \<and> \<not> is_string (handleTauriError (JObj [(''message'', JNum 42)]))"
  by (simp add: handleTauriError_def get_prop_def)

section \<open>Unfolding the operations; the example sessions as records\<close>

lemmas handler_defs =
  on_benchmark_progress_def on_system_monitoring_def on_real_time_performance_def
  on_test_warning_def on_test_complete_def on_benchmark_complete_def on_test_error_def

lemmas api_defs =
  TauriApiService_getSystemInfo_def TauriApiService_startBenchmarkSuite_def
  TauriApiService_cancelBenchmark_def TauriApiService_getTestStatus_def
  TauriApiService_getAllTestSessions_def TauriApiService_getSystemMonitoringData_def
  TauriApiService_cleanupCompletedSessions_def TauriApiService_pauseBenchmark_def
  TauriApiService_resumeBenchmark_def

lemmas operation_defs =
  initializeSystemInfo_def startBenchmarkSuite_def cancelBenchmark_def pauseBenchmark_def
  resumeBenchmark_def getTestStatus_def getAllTestSessions_def getSystemMonitoringData_def
  cleanupCompletedSessions_def setupEventListeners_def cleanup_def

lemma running_s1_eq:
  "running_s1 =
     initial_state\<lparr>currentSession := Some ''s1'', testStatus := Running,
                   progress := \<lparr> overall = 0, current = 0, currentTest = [],
                                 message = msg_starting, estimatedTimeRemaining = None \<rparr>,
                   listeners := listener_names\<rparr>"
  by (simp add: running_s1_def initial_state_def setupEventListeners_def
        startBenchmarkSuite_def TauriApiService_startBenchmarkSuite_def listener_names_def)

section \<open>Delivery of events\<close>

text \<open>
  Delivering an event runs its callback once for every registered listener of its name.
  No callback changes the current session or the listeners.
\<close>

lemma fold_listeners_funpow:
  "fold (\<lambda>n st. if n = nm then h st else st) ns s = (h ^^ count_list ns nm) s"
  by (induction ns arbitrary: s) (simp_all add: funpow_swap1)

lemma emit_funpow: "emit e s = (handler e ^^ count_list (listeners s) (event_name e)) s"
  unfolding emit_def by (rule fold_listeners_funpow)

lemma funpow_preserves: "(\<And>s. P (h s) = P s) \<Longrightarrow> P ((h ^^ k) s) = P s"
  by (induction k) simp_all

lemma funpow_invariant: "(\<And>s. I s \<Longrightarrow> I (h s)) \<Longrightarrow> I s \<Longrightarrow> I ((h ^^ k) s)"
  by (induction k) simp_all

lemma handler_currentSession: "currentSession (handler e s) = currentSession s"
  by (cases e) (simp_all add: handler_defs Let_def)

lemma handler_listeners: "listeners (handler e s) = listeners s"
  by (cases e) (simp_all add: handler_defs Let_def)

lemma emit_currentSession: "currentSession (emit e s) = currentSession s"
  unfolding emit_funpow by (rule funpow_preserves) (rule handler_currentSession)

lemma emit_listeners: "listeners (emit e s) = listeners s"
  unfolding emit_funpow by (rule funpow_preserves) (rule handler_listeners)

lemma run_append: "run s (xs @ ys) = run (run s xs) ys"
  by (induction xs arbitrary: s) simp_all

lemma emit_status_kept:
  assumes "\<And>st. currentSession st = currentSession s \<Longrightarrow> testStatus (handler e st) = testStatus st"
  shows "testStatus (emit e s) = testStatus s"
proof -
  have "currentSession (emit e s) = currentSession s \<and> testStatus (emit e s) = testStatus s"
    unfolding emit_funpow
    by (rule funpow_invariant
          [where I = "\<lambda>st. currentSession st = currentSession s \<and> testStatus st = testStatus s"])
       (simp_all add: assms handler_currentSession)
  then show ?thesis by simp
qed

lemma emit_other_session:
  "event_session e \<noteq> currentSession s \<Longrightarrow> testStatus (emit e s) = testStatus s"
  by (rule emit_status_kept) (cases e; auto simp: handler_defs Let_def)

lemma run_emits_currentSession: "currentSession (run s (map Emit evs)) = currentSession s"
  by (induction evs arbitrary: s) (simp_all add: emit_currentSession)

lemma run_emits_listeners: "listeners (run s (map Emit evs)) = listeners s"
  by (induction evs arbitrary: s) (simp_all add: emit_listeners)

lemma funpow_sets_status:
  assumes h: "\<And>st :: state. currentSession st = currentSession s \<Longrightarrow>
                 testStatus (h st) = X \<and> currentSession (h st) = currentSession s"
    and k: "0 < k"
  shows "testStatus (((h :: state \<Rightarrow> state) ^^ k) s) = X"
proof -
  have cs: "currentSession ((h ^^ n) s) = currentSession s" for n
  proof (induction n)
    case 0
    show ?case by simp
  next
    case (Suc n)
    show ?case using h[OF Suc] by simp
  qed
  from k obtain n where "k = Suc n" by (cases k) simp_all
  then show ?thesis using h[OF cs[of n]] by simp
qed

lemma emit_sets_status:
  assumes "event_name e \<in> set (listeners s)"
    and "\<And>st. currentSession st = currentSession s \<Longrightarrow> testStatus (handler e st) = X"
  shows "testStatus (emit e s) = X"
  unfolding emit_funpow
proof (rule funpow_sets_status)
  show "0 < count_list (listeners s) (event_name e)"
    using assms(1) count_list_0_iff[of "listeners s" "event_name e"] by (metis gr0I)
qed (simp add: assms(2) handler_currentSession)

text \<open>
  The deliveries used on the example session \<open>s1\<close>, each with one listener registered.
\<close>

lemma emit_progress_s1:
  "listeners s = listener_names \<Longrightarrow> currentSession s = Some ''s1'' \<Longrightarrow>
   emit (BenchmarkProgressEv (progress_at v)) s =
     s\<lparr>progress := \<lparr> overall = v, current = v, currentTest = ''cpu'', message = ''running'',
                     estimatedTimeRemaining = None \<rparr>\<rparr>"
  by (simp add: emit_def listener_names_def on_benchmark_progress_def progress_at_def or_null_def)

lemma emit_test_complete_s1:
  "listeners s = listener_names \<Longrightarrow> currentSession s = Some ''s1'' \<Longrightarrow>
   emit (TestCompleteEv (test_done ty ok err)) s =
     (if ok then s
      else s\<lparr>error := JStr (or_default err msg_test_failed), testStatus := Failed\<rparr>)"
  by (simp add: emit_def listener_names_def on_test_complete_def test_done_def)

lemma emit_suite_done_s1:
  "listeners s = listener_names \<Longrightarrow> currentSession s = Some ''s1'' \<Longrightarrow>
   emit (BenchmarkCompleteEv (suite_done ok res err)) s =
     (if ok \<and> res \<noteq> None then s\<lparr>testResults := res, testStatus := Completed\<rparr>
      else s\<lparr>error := JStr (or_default err msg_suite_failed), testStatus := Failed\<rparr>)"
  by (auto simp: emit_def listener_names_def on_benchmark_complete_def suite_done_def)

lemma completed_s1_eq:
  "completed_s1 = running_s1\<lparr>testResults := Some some_results, testStatus := Completed\<rparr>"
  by (simp add: completed_s1_def emit_suite_done_s1 running_s1_eq)

lemma cancelled_s1_eq: "cancelled_s1 = running_s1\<lparr>testStatus := Cancelled\<rparr>"
  by (simp add: cancelled_s1_def cancelBenchmark_def no_session_def running_s1_eq
        TauriApiService_cancelBenchmark_def)

section \<open>The real-time performance buffer\<close>










section \<open>Overall progress\<close>

lemma on_benchmark_progress_overall:
  "overall (progress (on_benchmark_progress d s)) =
     (if Some (bp_session_id d) = currentSession s then bp_overall_progress d
      else overall (progress s))"
  by (simp add: on_benchmark_progress_def)

lemma funpow_progress_overall:
  "overall (progress ((on_benchmark_progress d ^^ k) s)) = overall (progress s)
   \<or> overall (progress ((on_benchmark_progress d ^^ k) s)) = bp_overall_progress d"
  by (induction k) (auto simp: on_benchmark_progress_overall)

lemma handler_progress:
  "progress_value (Emit e) = None \<Longrightarrow> progress (handler e s) = progress s"
  by (cases e) (simp_all add: handler_defs Let_def)

lemma emit_overall:
  "overall (progress (emit e s)) = overall (progress s)
   \<or> progress_value (Emit e) = Some (overall (progress (emit e s)))"
proof (cases "progress_value (Emit e)")
  case None
  have "progress (emit e s) = progress s"
    unfolding emit_funpow
    by (rule funpow_preserves) (rule handler_progress[OF None])
  then show ?thesis by simp
next
  case (Some v)
  then obtain d where e: "e = BenchmarkProgressEv d" by (cases e) simp_all
  show ?thesis
    using funpow_progress_overall[where d = d and k = "count_list (listeners s) (event_name e)" and s = s]
    by (auto simp: emit_funpow e)
qed

lemma step_overall:
  "within_session a \<Longrightarrow>
     overall (progress (step a s)) = overall (progress s)
     \<or> progress_value a = Some (overall (progress (step a s)))"
proof (cases a)
  case (Emit e)
  then show ?thesis using emit_overall[of e s] by simp
qed (auto simp: operation_defs Let_def split: sum.splits prod.splits)

lemma overall_trace_head: "\<exists>rest. overall_trace s acts = overall (progress s) # rest"
  by (cases acts) simp_all

lemma sorted_overall_trace:
  "list_all within_session acts \<Longrightarrow> sorted (overall (progress s) # reported acts)
     \<Longrightarrow> sorted (overall_trace s acts)"
proof (induction acts arbitrary: s)
  case Nil
  then show ?case by simp
next
  case (Cons a acts)
  let ?x = "overall (progress s)"
  let ?x' = "overall (progress (step a s))"
  from Cons.prems(1) have w: "within_session a" and ws: "list_all within_session acts"
    by simp_all
  have "?x \<le> ?x' \<and> sorted (?x' # reported acts)"
  proof (cases "progress_value a")
    case None
    with step_overall[OF w, of s] have "?x' = ?x" by simp
    with None Cons.prems(2) show ?thesis by simp
  next
    case (Some v)
    with Cons.prems(2) have s2: "?x \<le> v" "sorted (v # reported acts)" "sorted (?x # reported acts)"
      by auto
    from step_overall[OF w, of s] Some have "?x' = ?x \<or> ?x' = v" by auto
    with s2 show ?thesis by auto
  qed
  then have le: "?x \<le> ?x'" and tr: "sorted (overall_trace (step a s) acts)"
    using Cons.IH[OF ws] by simp_all
  obtain rest where r: "overall_trace (step a s) acts = ?x' # rest"
    using overall_trace_head by blast
  show ?case using le tr unfolding overall_trace.simps r by auto
qed

text \<open>
  C6, as the code has it. The recorded overall progress is the value of the last
  \<open>benchmark-progress\<close> event of the current session: the callback stores the reported
  value and adds nothing, so handling an event twice is handling it once, and pause and
  resume leave the recorded progress alone. Hence, within one session (no new start, no
  cleanup), the recorded value never decreases whenever the reported values, starting from
  the recorded one, do not decrease.
\<close>

theorem overall_progress_follows_events:
  "(list_all within_session acts \<and> sorted (overall (progress s) # reported acts) \<longrightarrow>
      sorted (overall_trace s acts))
   \<and> overall (progress (on_benchmark_progress d s)) =
       (if Some (bp_session_id d) = currentSession s then bp_overall_progress d
        else overall (progress s))
   \<and> on_benchmark_progress d (on_benchmark_progress d s) = on_benchmark_progress d s
   \<and> progress (step (PauseBenchmark invoke) s) = progress s
   \<and> progress (step (ResumeBenchmark invoke) s) = progress s"
proof -
  have "on_benchmark_progress d (on_benchmark_progress d s) = on_benchmark_progress d s"
    by (simp add: on_benchmark_progress_def)
  moreover have "progress (step (PauseBenchmark invoke) s) = progress s"
    by (simp add: pauseBenchmark_def split: sum.splits)
  moreover have "progress (step (ResumeBenchmark invoke) s) = progress s"
    by (simp add: resumeBenchmark_def split: sum.splits)
  ultimately show ?thesis
    using sorted_overall_trace[of acts s] on_benchmark_progress_overall[of d s] by blast
qed

text \<open>
  Progress 20, pause, resume, progress 50 on the session \<open>s1\<close>: the recorded values
  are 0, 20, 20, 20, 50.
\<close>

theorem overall_progress_follows_events_witness:
  "list_all within_session
     [Emit (BenchmarkProgressEv (progress_at 20)), PauseBenchmark (\<lambda>cmd args. Inr ()),
      ResumeBenchmark (\<lambda>cmd args. Inr ()), Emit (BenchmarkProgressEv (progress_at 50))]
   \<and> sorted (overall (progress running_s1) #
        reported [Emit (BenchmarkProgressEv (progress_at 20)), PauseBenchmark (\<lambda>cmd args. Inr ()),
                  ResumeBenchmark (\<lambda>cmd args. Inr ()), Emit (BenchmarkProgressEv (progress_at 50))])
   \<and> sorted (overall_trace running_s1
        [Emit (BenchmarkProgressEv (progress_at 20)), PauseBenchmark (\<lambda>cmd args. Inr ()),
         ResumeBenchmark (\<lambda>cmd args. Inr ()), Emit (BenchmarkProgressEv (progress_at 50))])
   \<and> overall_trace running_s1
        [Emit (BenchmarkProgressEv (progress_at 20)), PauseBenchmark (\<lambda>cmd args. Inr ()),
         ResumeBenchmark (\<lambda>cmd args. Inr ()), Emit (BenchmarkProgressEv (progress_at 50))]
       = [0, 20, 20, 20, 50]"
proof -
  have tr: "overall_trace running_s1
        [Emit (BenchmarkProgressEv (progress_at 20)), PauseBenchmark (\<lambda>cmd args. Inr ()),
         ResumeBenchmark (\<lambda>cmd args. Inr ()), Emit (BenchmarkProgressEv (progress_at 50))]
       = [0, 20, 20, 20, 50]"
    by (simp add: running_s1_eq initial_state_def emit_progress_s1 pauseBenchmark_def
          resumeBenchmark_def no_session_def TauriApiService_pauseBenchmark_def
          TauriApiService_resumeBenchmark_def)
  have pre: "list_all within_session
     [Emit (BenchmarkProgressEv (progress_at 20)), PauseBenchmark (\<lambda>cmd args. Inr ()),
      ResumeBenchmark (\<lambda>cmd args. Inr ()), Emit (BenchmarkProgressEv (progress_at 50))]
   \<and> sorted (overall (progress running_s1) #
        reported [Emit (BenchmarkProgressEv (progress_at 20)), PauseBenchmark (\<lambda>cmd args. Inr ()),
                  ResumeBenchmark (\<lambda>cmd args. Inr ()), Emit (BenchmarkProgressEv (progress_at 50))])"
    by (simp add: running_s1_eq initial_state_def progress_at_def)
  show ?thesis
    using pre tr
      overall_progress_follows_events
        [of "[Emit (BenchmarkProgressEv (progress_at 20)), PauseBenchmark (\<lambda>cmd args. Inr ()),
              ResumeBenchmark (\<lambda>cmd args. Inr ()), Emit (BenchmarkProgressEv (progress_at 50))]"
            running_s1]
    by blast
qed

text \<open>
  C6 as stated fails: the callback does not compare. When the events report 50 and then,
  after a pause and a resume, 30, the recorded value goes down from 50 to 30.
\<close>

theorem overall_progress_regresses_counterexample:
  "overall_trace running_s1
     [Emit (BenchmarkProgressEv (progress_at 50)), PauseBenchmark (\<lambda>cmd args. Inr ()),
      ResumeBenchmark (\<lambda>cmd args. Inr ()), Emit (BenchmarkProgressEv (progress_at 30))]
     = [0, 50, 50, 50, 30]
   \<and> \<not> sorted [0, 50, 50, 50, 30 :: number]"
  by (simp add: running_s1_eq initial_state_def emit_progress_s1 pauseBenchmark_def
        resumeBenchmark_def no_session_def TauriApiService_pauseBenchmark_def
        TauriApiService_resumeBenchmark_def)

section \<open>test-error and test-complete\<close>

lemma msg_test_error_neq: "msg_test_error \<noteq> msg_test_failed"
  by (simp add: msg_test_error_def msg_test_failed_def)

lemma or_default_truthy: "x \<noteq> None \<Longrightarrow> x \<noteq> Some [] \<Longrightarrow> or_default x d = the x"
  by (auto simp: or_default_def split: option.splits)

lemma or_default_falsy: "x = None \<or> x = Some [] \<Longrightarrow> or_default x d = d"
  by (auto simp: or_default_def)

text \<open>
  C5, as the code has it. For a payload of the current session whose success flag is
  false, the \<open>test-error\<close> callback and the \<open>test-complete\<close> callback both set the
  status to Failed and both store the payload's error text when it is present and not
  empty; when it is absent or empty each stores its own fallback text. The two resulting
  states are equal exactly when the payload carries a non-empty error text.
\<close>

theorem test_error_versus_test_complete:
  assumes "Some (tc_session_id d) = currentSession s" and "\<not> tc_success d"
  shows "testStatus (on_test_error d s) = Failed
       \<and> testStatus (on_test_complete d s) = Failed
       \<and> error (on_test_error d s) = JStr (or_default (tc_error d) msg_test_error)
       \<and> error (on_test_complete d s) = JStr (or_default (tc_error d) msg_test_failed)
       \<and> (on_test_error d s = on_test_complete d s) =
           (tc_error d \<noteq> None \<and> tc_error d \<noteq> Some [])"
proof -
  have a: "on_test_error d s =
             s\<lparr>error := JStr (or_default (tc_error d) msg_test_error), testStatus := Failed\<rparr>"
    using assms by (simp add: on_test_error_def)
  have b: "on_test_complete d s =
             s\<lparr>error := JStr (or_default (tc_error d) msg_test_failed), testStatus := Failed\<rparr>"
    using assms by (simp add: on_test_complete_def)
  have c: "(on_test_error d s = on_test_complete d s) =
           (tc_error d \<noteq> None \<and> tc_error d \<noteq> Some [])"
  proof (cases "tc_error d \<noteq> None \<and> tc_error d \<noteq> Some []")
    case True
    then show ?thesis unfolding a b by (simp add: or_default_truthy)
  next
    case False
    then have f: "tc_error d = None \<or> tc_error d = Some []" by blast
    have "error (on_test_error d s) \<noteq> error (on_test_complete d s)"
      unfolding a b by (simp add: or_default_falsy[OF f] msg_test_error_neq)
    then have "on_test_error d s \<noteq> on_test_complete d s" by metis
    with False show ?thesis by blast
  qed
  show ?thesis using c by (simp add: a b)
qed

text \<open>
  A failed storage test with the error text \<open>disk full\<close>: both callbacks give the same
  state.
\<close>

theorem test_error_versus_test_complete_witness:
  "Some (tc_session_id (test_done ''storage'' False (Some ''disk full''))) = currentSession running_s1
   \<and> \<not> tc_success (test_done ''storage'' False (Some ''disk full''))
   \<and> testStatus (on_test_error (test_done ''storage'' False (Some ''disk full'')) running_s1) = Failed
   \<and> error (on_test_error (test_done ''storage'' False (Some ''disk full'')) running_s1)
        = JStr ''disk full''
   \<and> on_test_error (test_done ''storage'' False (Some ''disk full'')) running_s1
        = on_test_complete (test_done ''storage'' False (Some ''disk full'')) running_s1"
proof -
  have h1: "Some (tc_session_id (test_done ''storage'' False (Some ''disk full'')))
              = currentSession running_s1"
    by (simp add: test_done_def running_s1_eq)
  have h2: "\<not> tc_success (test_done ''storage'' False (Some ''disk full''))"
    by (simp add: test_done_def)
  have h3: "or_default (tc_error (test_done ''storage'' False (Some ''disk full''))) msg_test_error
              = ''disk full''"
    by (simp add: test_done_def or_default_def)
  have h4: "tc_error (test_done ''storage'' False (Some ''disk full'')) = Some ''disk full''"
    by (simp add: test_done_def)
  show ?thesis
    using test_error_versus_test_complete [OF h1 h2] h1 h2 h3 h4 by (simp add: or_default_def)
qed

text \<open>
  C5 as stated fails: for a failed test without error text the two callbacks store
  different messages, so the resulting states differ.
\<close>

theorem test_error_not_alias_counterexample:
  "Some (tc_session_id (test_done ''cpu'' False None)) = currentSession running_s1
   \<and> \<not> tc_success (test_done ''cpu'' False None)
   \<and> error (on_test_error (test_done ''cpu'' False None) running_s1) = JStr msg_test_error
   \<and> error (on_test_complete (test_done ''cpu'' False None) running_s1) = JStr msg_test_failed
   \<and> msg_test_error \<noteq> msg_test_failed
   \<and> on_test_error (test_done ''cpu'' False None) running_s1
        \<noteq> on_test_complete (test_done ''cpu'' False None) running_s1"
proof -
  have e1: "error (on_test_error (test_done ''cpu'' False None) running_s1) = JStr msg_test_error"
    by (simp add: on_test_error_def test_done_def running_s1_eq or_default_def)
  have e2: "error (on_test_complete (test_done ''cpu'' False None) running_s1) = JStr msg_test_failed"
    by (simp add: on_test_complete_def test_done_def running_s1_eq or_default_def)
  have "on_test_error (test_done ''cpu'' False None) running_s1
        \<noteq> on_test_complete (test_done ''cpu'' False None) running_s1"
    using e1 e2 msg_test_error_neq by (metis jsval.inject(3))
  then show ?thesis
    using e1 e2 msg_test_error_neq by (simp add: test_done_def running_s1_eq)
qed

section \<open>The status of a suite\<close>

lemma emit_benchmark_complete_status:
  assumes "''benchmark-complete'' \<in> set (listeners s)"
    and "Some (bc_session_id d) = currentSession s"
  shows "testStatus (emit (BenchmarkCompleteEv d) s) =
           (if bc_success d \<and> bc_results d \<noteq> None then Completed else Failed)"
  by (rule emit_sets_status) (use assms in \<open>auto simp: on_benchmark_complete_def\<close>)

lemma emit_test_complete_failed:
  assumes "''test-complete'' \<in> set (listeners s)"
    and "Some (tc_session_id t) = currentSession s" and "\<not> tc_success t"
  shows "testStatus (emit (TestCompleteEv t) s) = Failed"
  by (rule emit_sets_status) (use assms in \<open>auto simp: on_test_complete_def\<close>)

text \<open>
  C2, as the code has it. The frontend does not count subsystems. After any events, the
  \<open>benchmark-complete\<close> event of the current session decides the status alone: Completed
  when it reports success and carries results, Failed otherwise, whatever the
  \<open>test-complete\<close> events before it said. Until then, a \<open>test-complete\<close> event of the
  current session with success false marks the session Failed at once. In particular a
  run in which one subsystem fails, another succeeds and the suite is then reported
  successful with results ends Completed.
\<close>

theorem suite_status_follows_events:
  "(''benchmark-complete'' \<in> set (listeners s) \<and> Some (bc_session_id d) = currentSession s \<longrightarrow>
      testStatus (run s (map Emit evs @ [Emit (BenchmarkCompleteEv d)])) =
        (if bc_success d \<and> bc_results d \<noteq> None then Completed else Failed))
   \<and> (''test-complete'' \<in> set (listeners s) \<and> Some (tc_session_id t) = currentSession s
        \<and> \<not> tc_success t \<longrightarrow>
      testStatus (emit (TestCompleteEv t) s) = Failed)"
proof -
  have "testStatus (run s (map Emit evs @ [Emit (BenchmarkCompleteEv d)])) =
        (if bc_success d \<and> bc_results d \<noteq> None then Completed else Failed)"
    if "''benchmark-complete'' \<in> set (listeners s)" "Some (bc_session_id d) = currentSession s"
    using that
    by (simp add: run_append emit_benchmark_complete_status run_emits_listeners
          run_emits_currentSession)
  then show ?thesis using emit_test_complete_failed[of s t] by blast
qed

text \<open>
  On the session \<open>s1\<close>: the CPU test fails, the memory test succeeds, the suite is
  reported successful with results; the status is Failed after the first event and
  Completed at the end.
\<close>

theorem suite_status_follows_events_witness:
  "''benchmark-complete'' \<in> set (listeners running_s1)
   \<and> Some (bc_session_id (suite_done True (Some some_results) None)) = currentSession running_s1
   \<and> ''test-complete'' \<in> set (listeners running_s1)
   \<and> Some (tc_session_id (test_done ''cpu'' False (Some ''cpu test crashed''))) = currentSession running_s1
   \<and> \<not> tc_success (test_done ''cpu'' False (Some ''cpu test crashed''))
   \<and> testStatus (emit (TestCompleteEv (test_done ''cpu'' False (Some ''cpu test crashed''))) running_s1)
        = Failed
   \<and> testStatus (run running_s1
        (map Emit [TestCompleteEv (test_done ''cpu'' False (Some ''cpu test crashed'')),
                   TestCompleteEv (test_done ''memory'' True None)]
         @ [Emit (BenchmarkCompleteEv (suite_done True (Some some_results) None))])) = Completed"
proof -
  have pre: "''benchmark-complete'' \<in> set (listeners running_s1)
     \<and> Some (bc_session_id (suite_done True (Some some_results) None)) = currentSession running_s1
     \<and> ''test-complete'' \<in> set (listeners running_s1)
     \<and> Some (tc_session_id (test_done ''cpu'' False (Some ''cpu test crashed''))) = currentSession running_s1
     \<and> \<not> tc_success (test_done ''cpu'' False (Some ''cpu test crashed''))
     \<and> bc_success (suite_done True (Some some_results) None)
     \<and> bc_results (suite_done True (Some some_results) None) \<noteq> None"
    by (simp add: running_s1_eq listener_names_def suite_done_def test_done_def)
  show ?thesis
    using pre
      suite_status_follows_events
        [of running_s1 "suite_done True (Some some_results) None"
            "[TestCompleteEv (test_done ''cpu'' False (Some ''cpu test crashed'')),
              TestCompleteEv (test_done ''memory'' True None)]"
            "test_done ''cpu'' False (Some ''cpu test crashed'')"]
    by simp
qed

text \<open>
  C2 as stated fails: after a failed CPU test and a successful memory test the session is
  marked Failed although not every subsystem failed, and it stays Failed when the suite is
  then reported unsuccessful.
\<close>

theorem suite_failed_despite_success_counterexample:
  "tc_success (test_done ''memory'' True None)
   \<and> \<not> tc_success (test_done ''cpu'' False (Some ''cpu test crashed''))
   \<and> testStatus (run running_s1
        [Emit (TestCompleteEv (test_done ''cpu'' False (Some ''cpu test crashed''))),
         Emit (TestCompleteEv (test_done ''memory'' True None))]) = Failed
   \<and> testStatus (run running_s1
        [Emit (TestCompleteEv (test_done ''cpu'' False (Some ''cpu test crashed''))),
         Emit (TestCompleteEv (test_done ''memory'' True None)),
         Emit (BenchmarkCompleteEv (suite_done False None (Some ''cpu test crashed'')))]) = Failed"
  by (simp add: running_s1_eq initial_state_def emit_test_complete_s1 emit_suite_done_s1)
     (simp add: test_done_def)

section \<open>Terminal statuses\<close>

text \<open>
  C1, as the code has it. The frontend has no guard on terminal statuses. Once the status
  is Completed, Failed or Cancelled it is left unchanged by pause and resume, by the
  queries for system information, sessions and monitoring data, by the backend's cleanup of
  completed sessions, by registering listeners, by a cancel without a current session or
  whose command fails, by progress, monitoring, performance and warning events, by a
  \<open>test-complete\<close> event with success true, and by every event addressed to another
  session. (These steps leave every status unchanged, terminal or not.)
\<close>

theorem terminal_status_kept:
  assumes "isCompleted s \<or> isFailed s \<or> isCancelled s"
  shows "testStatus (step (PauseBenchmark inv_unit) s) = testStatus s
     \<and> testStatus (step (ResumeBenchmark inv_unit) s) = testStatus s
     \<and> testStatus (step (InitializeSystemInfo inv_info) s) = testStatus s
     \<and> testStatus (step (GetAllTestSessions inv_sessions) s) = testStatus s
     \<and> testStatus (step (GetSystemMonitoringData inv_monitoring) s) = testStatus s
     \<and> testStatus (step (CleanupCompletedSessions inv_count inv_sessions) s) = testStatus s
     \<and> testStatus (step (SetupEventListeners listen) s) = testStatus s
     \<and> (no_session (currentSession s)
          \<or> (\<exists>err. TauriApiService_cancelBenchmark inv_unit (the (currentSession s)) = Inl err) \<longrightarrow>
        testStatus (step (CancelBenchmark inv_unit) s) = testStatus s)
     \<and> testStatus (step (Emit (BenchmarkProgressEv p)) s) = testStatus s
     \<and> testStatus (step (Emit (SystemMonitoringEv m)) s) = testStatus s
     \<and> testStatus (step (Emit (RealTimePerformanceEv r)) s) = testStatus s
     \<and> testStatus (step (Emit (TestWarningEv w)) s) = testStatus s
     \<and> (tc_success t \<longrightarrow> testStatus (step (Emit (TestCompleteEv t)) s) = testStatus s)
     \<and> (event_session e \<noteq> currentSession s \<longrightarrow> testStatus (step (Emit e) s) = testStatus s)"
proof -
  have ops: "testStatus (step (PauseBenchmark inv_unit) s) = testStatus s"
    "testStatus (step (ResumeBenchmark inv_unit) s) = testStatus s"
    "testStatus (step (InitializeSystemInfo inv_info) s) = testStatus s"
    "testStatus (step (GetAllTestSessions inv_sessions) s) = testStatus s"
    "testStatus (step (GetSystemMonitoringData inv_monitoring) s) = testStatus s"
    "testStatus (step (CleanupCompletedSessions inv_count inv_sessions) s) = testStatus s"
    "testStatus (step (SetupEventListeners listen) s) = testStatus s"
    by (simp_all add: operation_defs Let_def split: sum.splits prod.splits)
  have cancel: "testStatus (step (CancelBenchmark inv_unit) s) = testStatus s"
    if "no_session (currentSession s)
          \<or> (\<exists>err. TauriApiService_cancelBenchmark inv_unit (the (currentSession s)) = Inl err)"
    using that by (auto simp: cancelBenchmark_def)
  have evs: "testStatus (step (Emit (BenchmarkProgressEv p)) s) = testStatus s"
    "testStatus (step (Emit (SystemMonitoringEv m)) s) = testStatus s"
    "testStatus (step (Emit (RealTimePerformanceEv r)) s) = testStatus s"
    "testStatus (step (Emit (TestWarningEv w)) s) = testStatus s"
    by (simp_all add: emit_status_kept handler_defs Let_def)
  have tc: "testStatus (step (Emit (TestCompleteEv t)) s) = testStatus s" if "tc_success t"
    using that by (simp add: emit_status_kept on_test_complete_def)
  show ?thesis
    using ops cancel evs tc emit_other_session[of e s] by simp
qed

text \<open>
  On the completed session \<open>s1\<close>: pause, resume, a successful \<open>test-complete\<close>, a
  progress event and a \<open>test-error\<close> of session \<open>s0\<close> leave the status Completed.
\<close>

theorem terminal_status_kept_witness:
  "(isCompleted completed_s1 \<or> isFailed completed_s1 \<or> isCancelled completed_s1)
   \<and> testStatus (step (PauseBenchmark (\<lambda>cmd args. Inr ())) completed_s1) = Completed
   \<and> testStatus (step (ResumeBenchmark (\<lambda>cmd args. Inr ())) completed_s1) = Completed
   \<and> no_session (currentSession initial_state)
   \<and> tc_success (test_done ''memory'' True None)
   \<and> testStatus (step (Emit (TestCompleteEv (test_done ''memory'' True None))) completed_s1)
        = Completed
   \<and> testStatus (step (Emit (BenchmarkProgressEv (progress_at 100))) completed_s1) = Completed
   \<and> event_session (TestErrorEv ((test_done ''cpu'' False None)\<lparr>tc_session_id := ''s0''\<rparr>))
        \<noteq> currentSession completed_s1
   \<and> testStatus (step (Emit (TestErrorEv ((test_done ''cpu'' False None)\<lparr>tc_session_id := ''s0''\<rparr>)))
        completed_s1) = Completed"
proof -
  have c: "isCompleted completed_s1 \<or> isFailed completed_s1 \<or> isCancelled completed_s1"
    by (simp add: isCompleted_def completed_s1_eq)
  have st: "testStatus completed_s1 = Completed"
    by (simp add: completed_s1_eq)
  have pre: "no_session (currentSession initial_state)
     \<and> tc_success (test_done ''memory'' True None)
     \<and> event_session (TestErrorEv ((test_done ''cpu'' False None)\<lparr>tc_session_id := ''s0''\<rparr>))
          \<noteq> currentSession completed_s1"
    by (simp add: no_session_def initial_state_def test_done_def completed_s1_eq running_s1_eq)
  show ?thesis
    using c pre
      terminal_status_kept
        [OF c, of "\<lambda>cmd args. Inr ()" _ _ _ _ _ "progress_at 100" _ _ _
           "test_done ''memory'' True None"
           "TestErrorEv ((test_done ''cpu'' False None)\<lparr>tc_session_id := ''s0''\<rparr>)"]
    unfolding st by simp
qed

text \<open>
  C1 as stated fails: a \<open>benchmark-complete\<close> event turns the cancelled session
  Completed, \<open>cleanup\<close> turns the completed session Pending, and a failed
  \<open>test-complete\<close> event turns it Failed.
\<close>

theorem terminal_status_overwritten_counterexample:
  "isCancelled cancelled_s1
   \<and> testStatus (step (Emit (BenchmarkCompleteEv (suite_done True (Some some_results) None)))
        cancelled_s1) = Completed
   \<and> isCompleted completed_s1
   \<and> testStatus (step Cleanup completed_s1) = Pending
   \<and> testStatus (step (Emit (TestCompleteEv (test_done ''cpu'' False None))) completed_s1) = Failed"
  by (simp add: isCancelled_def isCompleted_def cancelled_s1_eq completed_s1_eq cleanup_def
        emit_suite_done_s1 emit_test_complete_s1 running_s1_eq)

section \<open>Cancel\<close>

text \<open>
  C3, as the code has it. Cancel never raises: the promise it returns is always
  fulfilled. Calling it twice, with the same answer from the backend, leaves the same
  state as calling it once. A Cancelled status stays Cancelled. The status is unchanged
  when there is no current session or the command fails; when the command succeeds the
  status becomes Cancelled whatever it was, Completed and Failed included.
\<close>

theorem cancel_idempotent:
  "cancelBenchmark invoke (snd (cancelBenchmark invoke s)) = cancelBenchmark invoke s
   \<and> fst (cancelBenchmark invoke s) = Inr ()
   \<and> (isCancelled s \<longrightarrow> isCancelled (snd (cancelBenchmark invoke s)))
   \<and> (no_session (currentSession s)
        \<or> (\<exists>err. TauriApiService_cancelBenchmark invoke (the (currentSession s)) = Inl err) \<longrightarrow>
      testStatus (snd (cancelBenchmark invoke s)) = testStatus s)
   \<and> (\<not> no_session (currentSession s)
        \<and> TauriApiService_cancelBenchmark invoke (the (currentSession s)) = Inr () \<longrightarrow>
      testStatus (snd (cancelBenchmark invoke s)) = Cancelled)"
  by (auto simp: cancelBenchmark_def isCancelled_def split: sum.splits)

text \<open>
  On the session \<open>s1\<close>: two accepted cancels equal one; cancelling the cancelled session
  keeps it Cancelled; a cancel that the backend rejects leaves the completed session
  Completed; an accepted cancel turns the running session Cancelled.
\<close>

theorem cancel_idempotent_witness:
  "cancelBenchmark (\<lambda>cmd args. Inr ()) (snd (cancelBenchmark (\<lambda>cmd args. Inr ()) running_s1))
     = cancelBenchmark (\<lambda>cmd args. Inr ()) running_s1
   \<and> isCancelled cancelled_s1
   \<and> isCancelled (snd (cancelBenchmark (\<lambda>cmd args. Inr ()) cancelled_s1))
   \<and> (\<exists>err. TauriApiService_cancelBenchmark (\<lambda>cmd args. Inl (JStr ''SessionNotFoundError''))
               (the (currentSession completed_s1)) = (Inl err :: unit promise))
   \<and> testStatus (snd (cancelBenchmark (\<lambda>cmd args. Inl (JStr ''SessionNotFoundError'')) completed_s1))
        = Completed
   \<and> \<not> no_session (currentSession running_s1)
   \<and> TauriApiService_cancelBenchmark (\<lambda>cmd args. Inr ()) (the (currentSession running_s1)) = Inr ()
   \<and> testStatus (snd (cancelBenchmark (\<lambda>cmd args. Inr ()) running_s1)) = Cancelled"
proof -
  have pre: "isCancelled cancelled_s1
     \<and> (\<exists>err. TauriApiService_cancelBenchmark (\<lambda>cmd args. Inl (JStr ''SessionNotFoundError''))
               (the (currentSession completed_s1)) = (Inl err :: unit promise))
     \<and> testStatus completed_s1 = Completed
     \<and> \<not> no_session (currentSession running_s1)
     \<and> TauriApiService_cancelBenchmark (\<lambda>cmd args. Inr ()) (the (currentSession running_s1)) = Inr ()"
    by (simp add: isCancelled_def cancelled_s1_eq completed_s1_eq running_s1_eq no_session_def
          TauriApiService_cancelBenchmark_def)
  show ?thesis
    using pre
      cancel_idempotent [of "\<lambda>cmd args. Inr ()" running_s1]
      cancel_idempotent [of "\<lambda>cmd args. Inr ()" cancelled_s1]
      cancel_idempotent [of "\<lambda>cmd args. Inl (JStr ''SessionNotFoundError'')" completed_s1]
    by simp
qed

text \<open>
  C3 as stated fails: an accepted cancel on the completed session raises nothing but
  changes its status from Completed to Cancelled.
\<close>

theorem cancel_after_completion_counterexample:
  "isCompleted completed_s1
   \<and> fst (cancelBenchmark (\<lambda>cmd args. Inr ()) completed_s1) = Inr ()
   \<and> testStatus (snd (cancelBenchmark (\<lambda>cmd args. Inr ()) completed_s1)) = Cancelled
   \<and> testStatus completed_s1 \<noteq> Cancelled"
  by (simp add: isCompleted_def completed_s1_eq running_s1_eq cancelBenchmark_def no_session_def
        TauriApiService_cancelBenchmark_def)

lemma handler_never_cancels:
  "testStatus s \<noteq> Cancelled \<Longrightarrow> testStatus (handler e s) \<noteq> Cancelled"
  by (cases e) (simp_all add: handler_defs Let_def)

lemma emit_never_cancels:
  "testStatus s \<noteq> Cancelled \<Longrightarrow> testStatus (emit e s) \<noteq> Cancelled"
  unfolding emit_funpow
  by (rule funpow_invariant[where I = "\<lambda>st. testStatus st \<noteq> Cancelled"])
     (simp_all add: handler_never_cancels)

text \<open>
  The cancel call with nothing pending is the one-step operation, and the only steps that
  turn a status into Cancelled are an accepted cancel and a status query that the backend
  answers with Cancelled.
\<close>

lemma cancelBenchmark_during_nothing:
  "cancelBenchmark_during invoke [] s = cancelBenchmark invoke s"
  by (auto simp: cancelBenchmark_during_def cancelBenchmark_call_def cancelBenchmark_settle_def
        cancelBenchmark_def no_session_def split: option.splits sum.splits)

lemma step_sets_cancelled:
  assumes "testStatus s \<noteq> Cancelled" and "testStatus (step a s) = Cancelled"
  shows "(\<exists>i. a = CancelBenchmark i \<and> \<not> no_session (currentSession s)
              \<and> TauriApiService_cancelBenchmark i (the (currentSession s)) = Inr ())
       \<or> (\<exists>i sid. a = GetTestStatus i sid \<and> fst (getTestStatus i sid s) = Inr (Some Cancelled))"
proof (cases a)
  case (Emit e)
  with assms emit_never_cancels[of s e] show ?thesis by simp
next
  case (CancelBenchmark i)
  with assms show ?thesis
    by (auto simp: cancelBenchmark_def split: if_splits sum.splits)
next
  case (GetTestStatus i sid)
  with assms show ?thesis
    by (auto simp: getTestStatus_def Let_def split: if_splits sum.splits)
qed (use assms in \<open>auto simp: operation_defs Let_def split: if_splits sum.splits prod.splits\<close>)

text \<open>
  C7, as the code has it. For a running session with a current session id, whatever
  events are delivered and whatever other steps run while the cancel call awaits the
  backend: the call always returns normally; when the backend accepted the command the
  status is Cancelled at the moment the call returns; when it rejected the command the call
  stores the error and nothing else, so the status is the one those steps left. No event
  sets the status to Cancelled, and the only steps that do are an accepted cancel and a
  status query answered with Cancelled: the frontend does not observe the runner and waits
  no checkpoint interval.
\<close>

theorem cancel_status_at_return:
  assumes "isRunning s" and "\<not> no_session (currentSession s)"
  shows "fst (cancelBenchmark_during invoke pending s) = Inr ()
       \<and> (TauriApiService_cancelBenchmark invoke (the (currentSession s)) = Inr () \<longrightarrow>
            testStatus (snd (cancelBenchmark_during invoke pending s)) = Cancelled)
       \<and> (TauriApiService_cancelBenchmark invoke (the (currentSession s)) = Inl err \<longrightarrow>
            snd (cancelBenchmark_during invoke pending s)
              = (run s pending)\<lparr>error := handleTauriError err\<rparr>
            \<and> testStatus (snd (cancelBenchmark_during invoke pending s))
              = testStatus (run s pending))
       \<and> testStatus (emit e s) \<noteq> Cancelled
       \<and> (testStatus (step a s) = Cancelled \<longrightarrow>
            (\<exists>i. a = CancelBenchmark i
                  \<and> TauriApiService_cancelBenchmark i (the (currentSession s)) = Inr ())
            \<or> (\<exists>i sid. a = GetTestStatus i sid
                  \<and> fst (getTestStatus i sid s) = Inr (Some Cancelled)))"
proof -
  from assms(1) have r: "testStatus s \<noteq> Cancelled" by (simp add: isRunning_def)
  from assms(2) have c: "cancelBenchmark_call s = Some (the (currentSession s))"
    by (auto simp: cancelBenchmark_call_def no_session_def split: option.splits)
  have d: "cancelBenchmark_during invoke pending s =
             cancelBenchmark_settle (TauriApiService_cancelBenchmark invoke (the (currentSession s)))
               (run s pending)"
    by (simp add: cancelBenchmark_during_def c)
  have 1: "fst (cancelBenchmark_during invoke pending s) = Inr ()"
    unfolding d by (simp add: cancelBenchmark_settle_def split: sum.splits)
  have 2: "testStatus (snd (cancelBenchmark_during invoke pending s)) = Cancelled"
    if "TauriApiService_cancelBenchmark invoke (the (currentSession s)) = Inr ()"
    unfolding d that by (simp add: cancelBenchmark_settle_def)
  have 3: "snd (cancelBenchmark_during invoke pending s)
              = (run s pending)\<lparr>error := handleTauriError err\<rparr>"
    if "TauriApiService_cancelBenchmark invoke (the (currentSession s)) = Inl err"
    unfolding d that by (simp add: cancelBenchmark_settle_def)
  have 4: "testStatus (emit e s) \<noteq> Cancelled"
    using r by (rule emit_never_cancels)
  have 5: "(\<exists>i. a = CancelBenchmark i
                  \<and> TauriApiService_cancelBenchmark i (the (currentSession s)) = Inr ())
            \<or> (\<exists>i sid. a = GetTestStatus i sid
                  \<and> fst (getTestStatus i sid s) = Inr (Some Cancelled))"
    if "testStatus (step a s) = Cancelled"
    using step_sets_cancelled[OF r that] by blast
  show ?thesis using 1 2 3 4 5 by simp
qed

text \<open>
  On the running session \<open>s1\<close>, with a \<open>test-error\<close> event delivered while the call is
  pending: an accepted cancel returns with the status Cancelled, a rejected one with the
  status Failed that the event left; with nothing pending a rejected cancel leaves the
  session Running. A warning event does not cancel the session; an accepted cancel does.
\<close>

theorem cancel_status_at_return_witness:
  "isRunning running_s1 \<and> \<not> no_session (currentSession running_s1)
   \<and> TauriApiService_cancelBenchmark (\<lambda>cmd args. Inr ()) (the (currentSession running_s1)) = Inr ()
   \<and> testStatus (snd (cancelBenchmark_during (\<lambda>cmd args. Inr ())
        [Emit (TestErrorEv (test_done ''cpu'' False None))] running_s1)) = Cancelled
   \<and> TauriApiService_cancelBenchmark (\<lambda>cmd args. Inl (JStr ''backend unavailable''))
        (the (currentSession running_s1)) = (Inl (JStr ''backend unavailable'') :: unit promise)
   \<and> testStatus (run running_s1 [Emit (TestErrorEv (test_done ''cpu'' False None))]) = Failed
   \<and> testStatus (snd (cancelBenchmark_during (\<lambda>cmd args. Inl (JStr ''backend unavailable''))
        [Emit (TestErrorEv (test_done ''cpu'' False None))] running_s1)) = Failed
   \<and> testStatus (snd (cancelBenchmark_during (\<lambda>cmd args. Inl (JStr ''backend unavailable''))
        [] running_s1)) = Running
   \<and> fst (cancelBenchmark_during (\<lambda>cmd args. Inl (JStr ''backend unavailable''))
        [Emit (TestErrorEv (test_done ''cpu'' False None))] running_s1) = Inr ()
   \<and> testStatus (emit (TestWarningEv \<lparr> tw_session_id = ''s1'', tw_test_type = ''cpu'',
                          tw_warning_type = ''temperature'', tw_message = ''sensor unavailable'',
                          tw_severity = Low \<rparr>) running_s1) \<noteq> Cancelled
   \<and> testStatus (step (CancelBenchmark (\<lambda>cmd args. Inr ())) running_s1) = Cancelled"
proof -
  have h1: "isRunning running_s1" by (simp add: isRunning_def running_s1_eq)
  have h2: "\<not> no_session (currentSession running_s1)"
    by (simp add: no_session_def running_s1_eq)
  have ok: "TauriApiService_cancelBenchmark (\<lambda>cmd args. Inr ()) (the (currentSession running_s1))
              = Inr ()"
    by (simp add: TauriApiService_cancelBenchmark_def)
  have ko: "TauriApiService_cancelBenchmark (\<lambda>cmd args. Inl (JStr ''backend unavailable''))
              (the (currentSession running_s1)) = (Inl (JStr ''backend unavailable'') :: unit promise)"
    by (simp add: TauriApiService_cancelBenchmark_def)
  have ev: "testStatus (run running_s1 [Emit (TestErrorEv (test_done ''cpu'' False None))]) = Failed"
    by (simp add: running_s1_eq emit_def listener_names_def on_test_error_def test_done_def
          initial_state_def)
  have st: "testStatus (step (CancelBenchmark (\<lambda>cmd args. Inr ())) running_s1) = Cancelled"
    by (simp add: cancelBenchmark_def no_session_def running_s1_eq
          TauriApiService_cancelBenchmark_def)
  have r0: "testStatus (run running_s1 []) = Running"
    by (simp add: running_s1_eq)
  show ?thesis
    using h1 h2 ok ko ev st r0
      cancel_status_at_return
        [OF h1 h2, of "\<lambda>cmd args. Inr ()" "[Emit (TestErrorEv (test_done ''cpu'' False None))]"
           _ "TestWarningEv \<lparr> tw_session_id = ''s1'', tw_test_type = ''cpu'',
                          tw_warning_type = ''temperature'', tw_message = ''sensor unavailable'',
                          tw_severity = Low \<rparr>"
           "CancelBenchmark (\<lambda>cmd args. Inr ())"]
      cancel_status_at_return
        [OF h1 h2, of "\<lambda>cmd args. Inl (JStr ''backend unavailable'')"
           "[Emit (TestErrorEv (test_done ''cpu'' False None))]" "JStr ''backend unavailable''"]
      cancel_status_at_return
        [OF h1 h2, of "\<lambda>cmd args. Inl (JStr ''backend unavailable'')" "[]"
           "JStr ''backend unavailable''"]
    by simp
qed

text \<open>
  C7 as stated fails: on the running session \<open>s1\<close> the status is Cancelled at the
  moment the accepted cancel call returns, with no event delivered in between, and also
  when only a progress event was delivered in between.
\<close>

theorem cancel_at_return_counterexample:
  "isRunning running_s1
   \<and> fst (cancelBenchmark_during (\<lambda>cmd args. Inr ()) [] running_s1) = Inr ()
   \<and> isCancelled (snd (cancelBenchmark_during (\<lambda>cmd args. Inr ()) [] running_s1))
   \<and> isCancelled (snd (cancelBenchmark_during (\<lambda>cmd args. Inr ())
        [Emit (BenchmarkProgressEv (progress_at 10))] running_s1))"
  by (simp add: isRunning_def isCancelled_def running_s1_eq cancelBenchmark_during_def
        cancelBenchmark_call_def cancelBenchmark_settle_def no_session_def
        TauriApiService_cancelBenchmark_def)

section \<open>Errors of the session-control commands\<close>

text \<open>
  C4, as the code has it. In \<open>TauriApiService\<close>, cancel, pause, resume and getTestStatus
  hand a rejection of the underlying command to their caller unchanged. The operations of
  the composable built on them catch it: their promise is always fulfilled, and when the
  command fails for the current session the state is the old one with \<open>error\<close> set to
  the text of the rejection (\<open>getTestStatus\<close> then yields \<open>undefined\<close>).
\<close>

theorem session_control_errors:
  "(invoke ''cancel_benchmark'' (JObj [(''sessionId'', JStr sid)]) = Inl e \<longrightarrow>
      TauriApiService_cancelBenchmark invoke sid = Inl e)
   \<and> (invoke ''pause_benchmark'' (JObj [(''sessionId'', JStr sid)]) = Inl e \<longrightarrow>
      TauriApiService_pauseBenchmark invoke sid = Inl e)
   \<and> (invoke ''resume_benchmark'' (JObj [(''sessionId'', JStr sid)]) = Inl e \<longrightarrow>
      TauriApiService_resumeBenchmark invoke sid = Inl e)
   \<and> (invoke_status ''get_test_status'' (JObj [(''sessionId'', JStr sid)]) = Inl e \<longrightarrow>
      TauriApiService_getTestStatus invoke_status sid = Inl e)
   \<and> fst (cancelBenchmark invoke s) = Inr ()
   \<and> fst (pauseBenchmark invoke s) = Inr ()
   \<and> fst (resumeBenchmark invoke s) = Inr ()
   \<and> (\<exists>r. fst (getTestStatus invoke_status sessionId s) = Inr r)
   \<and> (currentSession s = Some sid \<and> sid \<noteq> [] \<longrightarrow>
       (TauriApiService_cancelBenchmark invoke sid = Inl e \<longrightarrow>
          snd (cancelBenchmark invoke s) = s\<lparr>error := handleTauriError e\<rparr>)
       \<and> (TauriApiService_pauseBenchmark invoke sid = Inl e \<longrightarrow>
          snd (pauseBenchmark invoke s) = s\<lparr>error := handleTauriError e\<rparr>)
       \<and> (TauriApiService_resumeBenchmark invoke sid = Inl e \<longrightarrow>
          snd (resumeBenchmark invoke s) = s\<lparr>error := handleTauriError e\<rparr>)
       \<and> (TauriApiService_getTestStatus invoke_status sid = Inl e \<longrightarrow>
          getTestStatus invoke_status None s = (Inr None, s\<lparr>error := handleTauriError e\<rparr>)))"
  by (auto simp: api_defs cancelBenchmark_def pauseBenchmark_def resumeBenchmark_def
        getTestStatus_def no_session_def Let_def split: sum.splits)

text \<open>
  On the running session \<open>s1\<close> with a backend that rejects every command: the service
  functions reject with the backend's error, and pause is fulfilled with the error stored.
\<close>

theorem session_control_errors_witness:
  "TauriApiService_pauseBenchmark (\<lambda>cmd args. Inl (JStr ''InvalidStateError'')) ''s1''
     = (Inl (JStr ''InvalidStateError'') :: unit promise)
   \<and> TauriApiService_getTestStatus (\<lambda>cmd args. Inl (JStr ''SessionNotFoundError'')) ''s1''
     = (Inl (JStr ''SessionNotFoundError'') :: TestStatus promise)
   \<and> currentSession running_s1 = Some ''s1''
   \<and> pauseBenchmark (\<lambda>cmd args. Inl (JStr ''InvalidStateError'')) running_s1
     = (Inr (), running_s1\<lparr>error := JStr ''InvalidStateError''\<rparr>)"
proof -
  have pre: "currentSession running_s1 = Some ''s1'' \<and> ''s1'' \<noteq> []
     \<and> handleTauriError (JStr ''InvalidStateError'') = JStr ''InvalidStateError''"
    by (simp add: running_s1_eq handleTauriError_def)
  have api: "(\<lambda>cmd args. Inl (JStr ''InvalidStateError'') :: unit promise) ''pause_benchmark''
               (JObj [(''sessionId'', JStr ''s1'')]) = Inl (JStr ''InvalidStateError'')"
    "(\<lambda>cmd args. Inl (JStr ''SessionNotFoundError'') :: TestStatus promise) ''get_test_status''
               (JObj [(''sessionId'', JStr ''s1'')]) = Inl (JStr ''SessionNotFoundError'')"
    by simp_all
  show ?thesis
    using pre api
      session_control_errors
        [of "\<lambda>cmd args. Inl (JStr ''InvalidStateError'')" "''s1''" "JStr ''InvalidStateError''"
            "\<lambda>cmd args. Inl (JStr ''InvalidStateError'')" running_s1 None]
      session_control_errors
        [of "\<lambda>cmd args. Inl (JStr ''SessionNotFoundError'')" "''s1''" "JStr ''SessionNotFoundError''"
            "\<lambda>cmd args. Inl (JStr ''SessionNotFoundError'')" running_s1 None]
    by (simp add: prod_eq_iff)
qed

text \<open>
  C4 as stated fails: the backend rejects pause with \<open>InvalidStateError\<close> and
  getTestStatus with \<open>SessionNotFoundError\<close>, yet the composable's calls are fulfilled.
\<close>

theorem session_control_error_swallowed_counterexample:
  "TauriApiService_pauseBenchmark (\<lambda>cmd args. Inl (JStr ''InvalidStateError'')) ''s1''
     = (Inl (JStr ''InvalidStateError'') :: unit promise)
   \<and> fst (pauseBenchmark (\<lambda>cmd args. Inl (JStr ''InvalidStateError'')) running_s1) = Inr ()
   \<and> TauriApiService_getTestStatus (\<lambda>cmd args. Inl (JStr ''SessionNotFoundError'')) ''gone''
     = (Inl (JStr ''SessionNotFoundError'') :: TestStatus promise)
   \<and> fst (getTestStatus (\<lambda>cmd args. Inl (JStr ''SessionNotFoundError'')) (Some ''gone'') running_s1)
     = Inr None"
  by (simp add: api_defs pauseBenchmark_def getTestStatus_def no_session_def running_s1_eq)

end
